theory Spec2Isabelle
  imports Complex_Main "HOL-Library.Multiset" "HOL-Library.Sublist"
    "HOL-Library.Char_ord" "HOL-Library.List_Lexorder"
begin

section \<open>Strings\<close>

text \<open>
  A Go string is a sequence of bytes, and so is a HOL \<^typ>\<open>string\<close>. The functions of
  package \<^verbatim>\<open>strings\<close> that the service calls are written out for the byte strings the
  service passes them.
\<close>

text \<open>\<^verbatim>\<open>strings.ReplaceAll(s, c, "")\<close> for a pattern \<^verbatim>\<open>c\<close> of one byte deletes every
  occurrence of that byte.\<close>

definition ReplaceAll_del :: "string \<Rightarrow> char \<Rightarrow> string" where
  "ReplaceAll_del s c = filter (\<lambda>x. x \<noteq> c) s"

text \<open>The ASCII white space of \<^verbatim>\<open>unicode.IsSpace\<close>: tab, line feed, vertical tab, form
  feed, carriage return and space.\<close>

definition isSpace :: "char \<Rightarrow> bool" where
  "isSpace c = (c \<in> set [CHR 0x09, CHR 0x0A, CHR 0x0B, CHR 0x0C, CHR 0x0D, CHR 0x20])"

text \<open>\<^verbatim>\<open>strings.TrimSpace\<close> on its ASCII white space. Go also trims the Unicode spaces
  beyond ASCII, which UTF-8 writes with bytes from \<open>0x80\<close> upwards only; lemma
  \<open>FindString_num_trim\<close> below shows that no trimming of such bytes changes what
  \<open>ParsePrice\<close> reads.\<close>

definition TrimSpace :: "string \<Rightarrow> string" where
  "TrimSpace s = rev (dropWhile isSpace (rev (dropWhile isSpace s)))"

text \<open>\<^verbatim>\<open>strings.ToLower\<close> and \<^verbatim>\<open>strings.ToUpper\<close>, as Go writes them: a string of
  ASCII bytes only is mapped byte by byte, the letters A to Z to a to z or back; any
  other string goes through \<^verbatim>\<open>strings.Map\<close> with the case mapping of package
  \<^verbatim>\<open>unicode\<close>. That mapping is a table of Go's library: it is a parameter of the
  model, and what is proved holds for every such mapping.\<close>

fun isASCII_char :: "char \<Rightarrow> bool" where
  "isASCII_char (Char b0 b1 b2 b3 b4 b5 b6 b7) = (\<not> b7)"

definition isASCII :: "string \<Rightarrow> bool" where
  "isASCII s = list_all isASCII_char s"

definition upper_letters :: string where
  "upper_letters = ''ABCDEFGHIJKLMNOPQRSTUVWXYZ''"

definition lower_letters :: string where
  "lower_letters = ''abcdefghijklmnopqrstuvwxyz''"

definition toLower_char :: "char \<Rightarrow> char" where
  "toLower_char c = (case map_of (zip upper_letters lower_letters) c of None \<Rightarrow> c | Some l \<Rightarrow> l)"

definition toUpper_char :: "char \<Rightarrow> char" where
  "toUpper_char c = (case map_of (zip lower_letters upper_letters) c of None \<Rightarrow> c | Some u \<Rightarrow> u)"

definition ToLower :: "(string \<Rightarrow> string) \<Rightarrow> string \<Rightarrow> string" where
  "ToLower unicode_lower s = (if isASCII s then map toLower_char s else unicode_lower s)"

definition ToUpper :: "(string \<Rightarrow> string) \<Rightarrow> string \<Rightarrow> string" where
  "ToUpper unicode_upper s = (if isASCII s then map toUpper_char s else unicode_upper s)"

text \<open>\<^verbatim>\<open>strings.HasPrefix\<close> and \<^verbatim>\<open>strings.Contains\<close>: the substring is looked for at
  every position, from the left.\<close>

fun HasPrefix :: "string \<Rightarrow> string \<Rightarrow> bool" where
  "HasPrefix s [] = True"
| "HasPrefix [] (c # sub) = False"
| "HasPrefix (x # s) (c # sub) = (x = c \<and> HasPrefix s sub)"

fun Contains :: "string \<Rightarrow> string \<Rightarrow> bool" where
  "Contains [] sub = (sub = [])"
| "Contains (x # s) sub = (HasPrefix (x # s) sub \<or> Contains s sub)"

section \<open>Price and rating normaliser (pkg/utils/price.go)\<close>

text \<open>
  The normaliser returns a \<^verbatim>\<open>float64\<close> that is a number, never NaN or an infinity:
  its result is modelled by the real number it stands for. The rounding of a decimal to the
  nearest \<^verbatim>\<open>float64\<close> is left out: the service only compares these numbers.
\<close>

definition isDigit :: "char \<Rightarrow> bool" where
  "isDigit c = (c \<in> set ''0123456789'')"

text \<open>The character class \<^verbatim>\<open>[\d.]\<close> of the regular expression.\<close>

definition isNum :: "char \<Rightarrow> bool" where
  "isNum c = (isDigit c \<or> c = CHR ''.'')"

text \<open>\<^verbatim>\<open>regexp.MustCompile(`[\d.]+`).FindString(s)\<close>: the leftmost match, as long as it
  can be; the empty string when nothing matches.\<close>

definition FindString_num :: "string \<Rightarrow> string" where
  "FindString_num s = takeWhile isNum (dropWhile (\<lambda>c. \<not> isNum c) s)"

text \<open>The value of a decimal digit is its position in \<^verbatim>\<open>0123456789\<close>.\<close>

definition digit_val :: "char \<Rightarrow> nat" where
  "digit_val c = length (takeWhile (\<lambda>d. d \<noteq> c) ''0123456789'')"

definition digits_val :: "string \<Rightarrow> nat" where
  "digits_val ds = foldl (\<lambda>a c. 10 * a + digit_val c) 0 ds"

text \<open>The least number that \<^verbatim>\<open>strconv.ParseFloat(_, 64)\<close> rounds to infinity, which it
  reports as a range error: half an ulp above the largest \<^verbatim>\<open>float64\<close>.\<close>

definition float64_overflow :: real where
  "float64_overflow = 2 ^ 1024 - 2 ^ 970"

definition overflows :: "real \<Rightarrow> bool" where
  "overflows v = (float64_overflow \<le> v)"

text \<open>\<^verbatim>\<open>strconv.ParseFloat(s, 64)\<close> on the strings the regular expression lets through
  (digits and dots): digits, at most one dot, at least one digit; a second dot or no
  digit is a syntax error, a number too large a range error (\<open>None\<close> for both). Signs,
  exponents and the other forms Go accepts need bytes outside \<^verbatim>\<open>[\d.]\<close>; the model
  rejects them.\<close>

definition ParseFloat :: "string \<Rightarrow> real option" where
  "ParseFloat s =
     (let ip = takeWhile isDigit s; r = dropWhile isDigit s;
          fp = (case r of [] \<Rightarrow> [] | c # r' \<Rightarrow> if c = CHR ''.'' then takeWhile isDigit r' else []);
          rest = (case r of [] \<Rightarrow> [] | c # r' \<Rightarrow> if c = CHR ''.'' then dropWhile isDigit r' else r);
          v = real (digits_val (ip @ fp)) / 10 ^ length fp
      in if ip = [] \<and> fp = [] then None
         else if rest \<noteq> [] then None
         else if overflows v then None
         else Some v)"

definition ParsePrice :: "string \<Rightarrow> real" where
  "ParsePrice priceStr =
     (if priceStr = [] then 0
      else let cleanPrice = ReplaceAll_del priceStr (CHR ''$'');
               cleanPrice = ReplaceAll_del cleanPrice (CHR '','');
               cleanPrice = TrimSpace cleanPrice;
               match = FindString_num cleanPrice
           in if match = [] then 0
              else case ParseFloat match of None \<Rightarrow> 0 | Some price \<Rightarrow> price)"

definition ParseRating :: "string \<Rightarrow> real" where
  "ParseRating ratingStr =
     (if ratingStr = [] then 0
      else let match = FindString_num ratingStr
           in if match = [] then 0
              else case ParseFloat match of None \<Rightarrow> 0 | Some rating \<Rightarrow> rating)"

text \<open>The text \<open>ParsePrice\<close> hands to the regular expression, but for the trimming.\<close>

definition stripped :: "string \<Rightarrow> string" where
  "stripped s = ReplaceAll_del (ReplaceAll_del s (CHR ''$'')) (CHR '','')"


section \<open>Floating-point numbers\<close>

text \<open>A \<^verbatim>\<open>float64\<close> that comes from the request (a bound of a filter, read by
  \<^verbatim>\<open>strconv.ParseFloat\<close> in the handler) is a number, an infinity or NaN. A number is
  modelled by the real it stands for. \<open>flt\<close> is Go's \<^verbatim>\<open><\<close> (and \<^verbatim>\<open>a > b\<close> is
  \<open>flt b a\<close>): every comparison with NaN is false.\<close>

datatype float64 = Num real | PosInf | NegInf | NaN

definition flt :: "float64 \<Rightarrow> float64 \<Rightarrow> bool" where
  "flt a b =
     (case a of
        NaN \<Rightarrow> False
      | PosInf \<Rightarrow> False
      | NegInf \<Rightarrow> (case b of Num y \<Rightarrow> True | PosInf \<Rightarrow> True | NegInf \<Rightarrow> False | NaN \<Rightarrow> False)
      | Num x \<Rightarrow> (case b of Num y \<Rightarrow> x < y | PosInf \<Rightarrow> True | NegInf \<Rightarrow> False | NaN \<Rightarrow> False))"

section \<open>Data model (internal/models)\<close>

text \<open>A pointer that may be nil is an \<open>option\<close>; \<^verbatim>\<open>time.Time\<close> is a number. A field
  name that two structs share carries a suffix in the later struct: \<open>_f\<close> in
  \<open>Filters\<close>, \<open>_r\<close> in \<open>SearchResponse\<close>. \<open>PriceValue\<close> is written by
  \<open>processProducts\<close> only, from the normaliser: it is a number.\<close>

record Product =
  ID :: string
  Name :: string
  Price :: string
  Currency :: string
  URL :: string
  Image :: string
  Rating :: string
  Reviews :: string
  Source :: string
  ScrapedAt :: int
  InStock :: bool
  Description :: string
  PriceValue :: real

record Filters =
  MinPrice :: float64
  MaxPrice :: float64
  InStock_f :: "bool option"
  MinRating :: float64
  Source_f :: string

record Sort =
  Field' :: string
  Order :: string

record SearchParams =
  Query :: string
  Country :: string
  Page :: int
  Limit :: int
  Filters :: "Filters option"
  Sort :: "Sort option"

record SearchResponse =
  Query_r :: string
  Products :: "Product list"
  Total :: int
  Page_r :: int
  Limit_r :: int
  TotalPages :: int
  Source_r :: string
  Filters_r :: "Filters option"
  Sort_r :: "Sort option"
  Duration :: string

section \<open>Machine integers and formatting\<close>

text \<open>Go's \<^verbatim>\<open>int\<close> has 64 bits on the platforms the service is built for; arithmetic
  wraps around.\<close>

definition wrap64 :: "int \<Rightarrow> int" where
  "wrap64 x = (x + 2 ^ 63) mod 2 ^ 64 - 2 ^ 63"

definition in_int64 :: "int \<Rightarrow> bool" where
  "in_int64 x = (- (2 ^ 63) \<le> x \<and> x < 2 ^ 63)"

text \<open>\<^verbatim>\<open>%d\<close>: decimal digits, most significant first, with a minus sign for a negative
  number.\<close>

definition digit_char :: "nat \<Rightarrow> char" where
  "digit_char d = ''0123456789'' ! d"

fun show_nat :: "nat \<Rightarrow> string" where
  "show_nat n = (if n < 10 then [digit_char n] else show_nat (n div 10) @ [digit_char (n mod 10)])"

declare show_nat.simps [simp del]

definition show_int :: "int \<Rightarrow> string" where
  "show_int i = (if i < 0 then CHR ''-'' # show_nat (nat (- i)) else show_nat (nat i))"

text \<open>Rounding to the nearest integer, a tie to the even one.\<close>

definition round_half_even :: "real \<Rightarrow> int" where
  "round_half_even y =
     (let f = \<lfloor>y\<rfloor>; r = y - of_int f
      in if r < 1 / 2 then f else if 1 / 2 < r then f + 1 else if even f then f else f + 1)"

text \<open>Left padding with zeros to a width.\<close>

definition pad0 :: "nat \<Rightarrow> string \<Rightarrow> string" where
  "pad0 w s = replicate (w - length s) (CHR ''0'') @ s"

text \<open>The decimal expansion of a real number with \<open>d\<close> places, \<open>0 < d\<close>.\<close>

definition show_fixed :: "nat \<Rightarrow> real \<Rightarrow> string" where
  "show_fixed d x =
     (let n = nat (round_half_even (\<bar>x\<bar> * 10 ^ d))
      in (if x < 0 then ''-'' else []) @ show_nat (n div 10 ^ d) @ ''.'' @ pad0 d (show_nat (n mod 10 ^ d)))"

text \<open>\<^verbatim>\<open>%t\<close>.\<close>

definition show_bool :: "bool \<Rightarrow> string" where
  "show_bool b = (if b then ''true'' else ''false'')"

section \<open>Cache key (pkg/cache, GenerateSearchKey)\<close>

text \<open>The verbs \<^verbatim>\<open>%.2f\<close> and \<^verbatim>\<open>%.1f\<close> format the binary value of a \<^verbatim>\<open>float64\<close>,
  by Go's library. The formatting is a parameter \<open>fmt\<close> of the model, of the number of
  places and the value.\<close>

definition GenerateSearchKey :: "(nat \<Rightarrow> float64 \<Rightarrow> string) \<Rightarrow> SearchParams \<Rightarrow> string" where
  "GenerateSearchKey fmt params =
     (let key = ''search:'' @ Query params @ '':'' @ Country params @ '':p'' @ show_int (Page params)
                @ '':l'' @ show_int (Limit params);
          key = (case Filters params of
                   None \<Rightarrow> key
                 | Some f \<Rightarrow>
                     (let key = (if flt (Num 0) (MinPrice f) then key @ '':minp'' @ fmt 2 (MinPrice f) else key);
                          key = (if flt (Num 0) (MaxPrice f) then key @ '':maxp'' @ fmt 2 (MaxPrice f) else key);
                          key = (if Source_f f \<noteq> [] then key @ '':src'' @ Source_f f else key);
                          key = (case InStock_f f of None \<Rightarrow> key
                                 | Some b \<Rightarrow> key @ '':stock'' @ show_bool b);
                          key = (if flt (Num 0) (MinRating f) then key @ '':rating'' @ fmt 1 (MinRating f) else key)
                      in key));
          key = (case Sort params of
                   None \<Rightarrow> key
                 | Some sp \<Rightarrow> key @ '':sort'' @ Field' sp @ '':'' @ Order sp)
      in key)"

section \<open>Validation (validateSearchParams)\<close>

text \<open>An error made by \<^verbatim>\<open>fmt.Errorf\<close> is its message.\<close>

fun contains :: "string list \<Rightarrow> string \<Rightarrow> bool" where
  "contains [] item = False"
| "contains (s # slice) item = (if s = item then True else contains slice item)"

definition validFields :: "string list" where
  "validFields = [''price'', ''rating'', ''name'']"

definition validOrders :: "string list" where
  "validOrders = [''asc'', ''desc'']"

text \<open>\<^verbatim>\<open>strings.Join(xs, ", ")\<close>.\<close>

fun Join :: "string list \<Rightarrow> string" where
  "Join [] = []"
| "Join [x] = x"
| "Join (x # y # xs) = x @ '', '' @ Join (y # xs)"

text \<open>The function changes the request in place (page and limit defaults) and returns
  an error or nil; the model returns the error or the changed request.\<close>

definition validateSearchParams :: "SearchParams \<Rightarrow> string + SearchParams" where
  "validateSearchParams params =
     (if Query params = [] then Inl ''search query cannot be empty''
      else
        let params = (if Page params \<le> 0 then params\<lparr>Page := 1\<rparr> else params);
            params = (if Limit params \<le> 0 then params\<lparr>Limit := 10\<rparr> else params);
            params = (if 100 < Limit params then params\<lparr>Limit := 100\<rparr> else params);
            filters_err =
              (case Filters params of
                 None \<Rightarrow> None
               | Some f \<Rightarrow>
                   if flt (MinPrice f) (Num 0) then Some ''minimum price cannot be negative''
                   else if flt (Num 0) (MaxPrice f) \<and> flt (MaxPrice f) (MinPrice f)
                     then Some ''maximum price cannot be less than minimum price''
                   else if flt (MinRating f) (Num 0) \<or> flt (Num 5) (MinRating f)
                     then Some ''minimum rating must be between 0 and 5''
                   else None);
            sort_err =
              (case Sort params of
                 None \<Rightarrow> None
               | Some sp \<Rightarrow>
                   if \<not> contains validFields (Field' sp)
                     then Some (''invalid sort field: '' @ Field' sp @ ''. Valid fields: '' @ Join validFields)
                   else if \<not> contains validOrders (Order sp)
                     then Some (''invalid sort order: '' @ Order sp @ ''. Valid orders: '' @ Join validOrders)
                   else None)
        in case filters_err of
             Some e \<Rightarrow> Inl e
           | None \<Rightarrow> (case sort_err of Some e \<Rightarrow> Inl e | None \<Rightarrow> Inr params))"

section \<open>Fan-out to the retrievers (scrapeAllSources)\<close>

datatype retriever = Amazon | Ebay | Flipkart | Walmart | Target | BestBuy

text \<open>What one call \<^verbatim>\<open>Search(query, country)\<close> of a retriever does: it returns a slice,
  which may be nil, with an error, which may be nil, or it panics.\<close>

datatype outcome = Returns "Product list option" "string option" | Panics

text \<open>The goroutines the function starts, in the order of the \<^verbatim>\<open>go\<close> statements.\<close>

definition launched :: "(string \<Rightarrow> string) \<Rightarrow> string \<Rightarrow> retriever list" where
  "launched up country =
     [Amazon, Ebay]
     @ (if ToUpper up country = ''IN'' then [Flipkart] else [])
     @ (if ToUpper up country = ''US'' then [Walmart] else [])
     @ (if ToUpper up country = ''US'' then [Target] else [])
     @ (if ToUpper up country = ''US'' then [BestBuy] else [])"

text \<open>What one goroutine appends to \<^verbatim>\<open>allProducts\<close> under the mutex: the slice its
  retriever returned, a nil slice as the empty one, whatever the error; nothing when the
  retriever panicked, since the deferred \<^verbatim>\<open>recover\<close> ends the goroutine before
  \<^verbatim>\<open>addProducts\<close>.\<close>

definition appended :: "outcome \<Rightarrow> Product list" where
  "appended out =
     (case out of
        Panics \<Rightarrow> []
      | Returns products err \<Rightarrow> (case products of None \<Rightarrow> [] | Some ps \<Rightarrow> ps))"

text \<open>The goroutines run concurrently and each appends once, under the mutex: the
  appends happen one after the other, in an order the scheduler chooses. The order is a
  parameter: \<open>rank\<close> gives each retriever its place, goroutines of equal rank append in
  the order they were started. Every order of the appends comes from some \<open>rank\<close>.\<close>

definition scrapeAllSources ::
  "(string \<Rightarrow> string) \<Rightarrow> (retriever \<Rightarrow> string \<Rightarrow> string \<Rightarrow> outcome) \<Rightarrow> (retriever \<Rightarrow> nat)
   \<Rightarrow> string \<Rightarrow> string \<Rightarrow> Product list" where
  "scrapeAllSources up search rank query country =
     concat (map (\<lambda>r. appended (search r query country)) (sort_key rank (launched up country)))"

section \<open>Post-processing pipeline\<close>

definition processProducts :: "Product list \<Rightarrow> Product list" where
  "processProducts products = map (\<lambda>p. p\<lparr>PriceValue := ParsePrice (Price p)\<rparr>) products"

text \<open>The loop of \<open>applyFilters\<close>: \<open>filtered\<close> is the slice built so far, each
  \<^verbatim>\<open>continue\<close> goes on with the next product.\<close>

fun applyFilters_loop ::
  "(string \<Rightarrow> string) \<Rightarrow> Filters \<Rightarrow> Product list \<Rightarrow> Product list \<Rightarrow> Product list" where
  "applyFilters_loop lo filters [] filtered = filtered"
| "applyFilters_loop lo filters (product # products) filtered =
     (if flt (Num 0) (MinPrice filters) \<and> flt (Num (PriceValue product)) (MinPrice filters)
        then applyFilters_loop lo filters products filtered
      else if flt (Num 0) (MaxPrice filters) \<and> flt (MaxPrice filters) (Num (PriceValue product))
        then applyFilters_loop lo filters products filtered
      else if (case InStock_f filters of None \<Rightarrow> False | Some st \<Rightarrow> InStock product \<noteq> st)
        then applyFilters_loop lo filters products filtered
      else if flt (Num 0) (MinRating filters)
            \<and> flt (Num (ParseRating (Rating product))) (MinRating filters)
        then applyFilters_loop lo filters products filtered
      else if Source_f filters \<noteq> []
            \<and> \<not> (Contains (ToLower lo (Source product)) (ToLower lo (Source_f filters))
                   \<or> Contains (ToLower lo (Source_f filters)) (ToLower lo (Source product)))
        then applyFilters_loop lo filters products filtered
      else applyFilters_loop lo filters products (filtered @ [product]))"

definition applyFilters :: "(string \<Rightarrow> string) \<Rightarrow> Product list \<Rightarrow> Filters option \<Rightarrow> Product list" where
  "applyFilters lo products filters =
     (case filters of None \<Rightarrow> products | Some f \<Rightarrow> applyFilters_loop lo f products [])"

text \<open>The comparison \<open>applySorting\<close> hands to \<^verbatim>\<open>sort.Slice\<close>. Go compares strings
  byte by byte, as the lexicographic order on \<^typ>\<open>string\<close> does.\<close>

definition less_by :: "Sort \<Rightarrow> Product \<Rightarrow> Product \<Rightarrow> bool" where
  "less_by sortParams p q =
     (if Field' sortParams = ''price''
        then (if Order sortParams = ''desc'' then PriceValue q < PriceValue p
              else PriceValue p < PriceValue q)
      else if Field' sortParams = ''rating''
        then (let ratingI = ParseRating (Rating p); ratingJ = ParseRating (Rating q)
              in if Order sortParams = ''desc'' then ratingJ < ratingI else ratingI < ratingJ)
      else if Field' sortParams = ''name''
        then (if Order sortParams = ''desc'' then Name q < Name p else Name p < Name q)
      else False)"

text \<open>\<^verbatim>\<open>sort.Slice\<close> belongs to Go's library; it is a parameter \<open>sort_Slice\<close> of the
  model. The function sorts in place; the model returns the sorted slice.\<close>

definition applySorting ::
  "((Product \<Rightarrow> Product \<Rightarrow> bool) \<Rightarrow> Product list \<Rightarrow> Product list) \<Rightarrow> Product list \<Rightarrow> Sort option \<Rightarrow> Product list" where
  "applySorting sort_Slice products sortParams =
     (case sortParams of None \<Rightarrow> products | Some sp \<Rightarrow> sort_Slice (less_by sp) products)"

text \<open>What the documentation of \<^verbatim>\<open>sort.Slice\<close> promises, for a comparison that is a
  strict weak order: the result is the slice rearranged, and no element is less than an
  element before it. "The sort is not guaranteed to be stable."\<close>

definition strict_weak_order :: "('a \<Rightarrow> 'a \<Rightarrow> bool) \<Rightarrow> bool" where
  "strict_weak_order lt =
     ((\<forall>a. \<not> lt a a) \<and> (\<forall>a b c. lt a b \<and> lt b c \<longrightarrow> lt a c)
      \<and> (\<forall>a b c. \<not> lt a b \<and> \<not> lt b c \<longrightarrow> \<not> lt a c))"

definition sort_Slice_contract :: "(('a \<Rightarrow> 'a \<Rightarrow> bool) \<Rightarrow> 'a list \<Rightarrow> 'a list) \<Rightarrow> bool" where
  "sort_Slice_contract srt =
     (\<forall>lt xs. strict_weak_order lt \<longrightarrow>
        mset (srt lt xs) = mset xs \<and> sorted_wrt (\<lambda>a b. \<not> lt b a) (srt lt xs))"

text \<open>\<^verbatim>\<open>math.Ceil(float64(total) / float64(limit))\<close> converted to \<^verbatim>\<open>int\<close>. For
  \<open>limit \<noteq> 0\<close> it is the ceiling of the quotient (the division of two \<^verbatim>\<open>float64\<close> is
  exact enough for every slice that fits in memory). For \<open>limit = 0\<close> the quotient is
  an infinity or NaN and Go leaves the conversion to the platform; the model takes the
  value of amd64, the least \<^verbatim>\<open>int64\<close>. \<open>SearchProducts\<close> never gets there.\<close>

definition ceil_quot :: "int \<Rightarrow> int \<Rightarrow> int" where
  "ceil_quot n limit = (if limit = 0 then - (2 ^ 63) else - ((- n) div limit))"

text \<open>The slice expression \<^verbatim>\<open>xs[i:j]\<close> for \<open>i \<le> j \<le> length xs\<close>.\<close>

definition subslice :: "'a list \<Rightarrow> nat \<Rightarrow> nat \<Rightarrow> 'a list" where
  "subslice xs i j = take (j - i) (drop i xs)"

text \<open>\<open>applyPagination\<close> returns a page and the page count, or panics in the slice
  expression \<^verbatim>\<open>products[start:end]\<close>, which needs \<open>0 \<le> start \<le> end \<le> cap\<close>.\<close>

datatype paged = Paged "Product list" int | SlicePanic

definition applyPagination :: "Product list \<Rightarrow> int \<Rightarrow> int \<Rightarrow> paged" where
  "applyPagination products page limit =
     (let total = int (length products);
          totalPages = ceil_quot total limit;
          start = wrap64 (wrap64 (page - 1) * limit)
      in if total \<le> start then Paged [] totalPages
         else
           let end1 = wrap64 (start + limit);
               end2 = (if total < end1 then total else end1)
           in if start < 0 \<or> end2 < start then SlicePanic
              else Paged (subslice products (nat start) (nat end2)) totalPages)"

section \<open>The search service (SearchProducts)\<close>

text \<open>The world around one request: whether the cache is there
  (\<^verbatim>\<open>s.cache != nil && s.cache.IsAvailable()\<close>), what a \<^verbatim>\<open>GetSearchResults\<close> answers, whether
  a \<^verbatim>\<open>SetSearchResults\<close> succeeds, what each retriever does, the order in which the
  goroutines append, the text of the elapsed time, and what the service takes from Go's
  library: the sort, the case mappings of \<^verbatim>\<open>unicode\<close> and the formatting of a
  \<^verbatim>\<open>float64\<close>.\<close>

datatype cache_reply = is_Hit: Hit SearchResponse | Miss | GetError string

record Env =
  cache_up :: bool
  cache_get :: "string \<Rightarrow> cache_reply"
  cache_set :: "string \<Rightarrow> SearchResponse \<Rightarrow> string option"
  search :: "retriever \<Rightarrow> string \<Rightarrow> string \<Rightarrow> outcome"
  rank :: "retriever \<Rightarrow> nat"
  elapsed :: string
  sort_Slice :: "(Product \<Rightarrow> Product \<Rightarrow> bool) \<Rightarrow> Product list \<Rightarrow> Product list"
  lower_map :: "string \<Rightarrow> string"
  upper_map :: "string \<Rightarrow> string"
  format_float :: "nat \<Rightarrow> float64 \<Rightarrow> string"

text \<open>The calls that leave the service, in a trace.\<close>

datatype call = CacheGet string | CacheSet string | Search retriever string string

datatype result = is_Failed: Failed string | is_Ok: Ok SearchResponse | is_Panicked: Panicked

text \<open>The source list of the response (lines 79 to 83 of the service).\<close>

definition sourceInfo :: "string \<Rightarrow> string" where
  "sourceInfo country = (if country = ''IN'' then ''Amazon, eBay, Flipkart'' else ''Amazon, eBay'')"

definition SearchProducts :: "Env \<Rightarrow> SearchParams \<Rightarrow> result \<times> call list" where
  "SearchProducts env params =
     (let params = (if Country params = [] then params\<lparr>Country := ''IN''\<rparr> else params)
      in case validateSearchParams params of
           Inl err \<Rightarrow> (Failed err, [])
         | Inr params \<Rightarrow>
             let cacheKey = (if cache_up env then GenerateSearchKey (format_float env) params else []);
                 looked = (if cache_up env then [CacheGet cacheKey] else []);
                 cached = (if cache_up env then cache_get env cacheKey else Miss)
             in case cached of
                  Hit resp \<Rightarrow> (Ok (resp\<lparr>Duration := elapsed env @ '' (cached)''\<rparr>), looked)
                | _ \<Rightarrow>
                    let country = ToUpper (upper_map env) (Country params);
                        calls = looked @ map (\<lambda>r. Search r (Query params) country)
                                           (launched (upper_map env) country);
                        allProducts = scrapeAllSources (upper_map env) (search env) (rank env)
                                        (Query params) country;
                        allProducts = processProducts allProducts;
                        filteredProducts = applyFilters (lower_map env) allProducts (Filters params);
                        filteredProducts = applySorting (sort_Slice env) filteredProducts (Sort params)
                    in case applyPagination filteredProducts (Page params) (Limit params) of
                         SlicePanic \<Rightarrow> (Panicked, calls)
                       | Paged paginatedProducts totalPages \<Rightarrow>
                           let response =
                                 \<lparr>Query_r = Query params, Products = paginatedProducts,
                                  Total = int (length filteredProducts), Page_r = Page params,
                                  Limit_r = Limit params, TotalPages = totalPages,
                                  Source_r = sourceInfo country, Filters_r = Filters params,
                                  Sort_r = Sort params, Duration = elapsed env\<rparr>
                           in (Ok response,
                               calls @ (if cache_up env \<and> cacheKey \<noteq> [] then [CacheSet cacheKey] else [])))"

section \<open>What the specification says, in its own words\<close>

text \<open>\<open>fle\<close> is \<open>\<le>\<close> on \<^verbatim>\<open>float64\<close>: NaN is in no order with anything.\<close>

definition fle :: "float64 \<Rightarrow> float64 \<Rightarrow> bool" where
  "fle a b =
     (case a of
        NaN \<Rightarrow> False
      | NegInf \<Rightarrow> b \<noteq> NaN
      | PosInf \<Rightarrow> b = PosInf
      | Num x \<Rightarrow> (case b of Num y \<Rightarrow> x \<le> y | PosInf \<Rightarrow> True | NegInf \<Rightarrow> False | NaN \<Rightarrow> False))"

text \<open>A request is invalid when the query is empty, the minimum price is negative, the
  maximum price is positive and below the minimum price, the minimum rating is outside
  0..5, or the sort field or order is not among the valid values.\<close>

definition invalid_request :: "SearchParams \<Rightarrow> bool" where
  "invalid_request params =
     (Query params = []
      \<or> (case Filters params of
            None \<Rightarrow> False
          | Some f \<Rightarrow> flt (MinPrice f) (Num 0)
                      \<or> (flt (Num 0) (MaxPrice f) \<and> flt (MaxPrice f) (MinPrice f))
                      \<or> \<not> (fle (Num 0) (MinRating f) \<and> fle (MinRating f) (Num 5)))
      \<or> (case Sort params of
            None \<Rightarrow> False
          | Some sp \<Rightarrow> \<not> (Field' sp \<in> {''price'', ''rating'', ''name''} \<and> Order sp \<in> {''asc'', ''desc''})))"

text \<open>A listing passes a filter when every predicate the filter specifies holds: the
  price within the bounds that are set, the stock flag as required, the rating at least
  the minimum, and the source name matching: one of the two names, in lower case, occurs
  inside the other. A bound is specified when it is above 0.\<close>

definition passes :: "(string \<Rightarrow> string) \<Rightarrow> Filters \<Rightarrow> Product \<Rightarrow> bool" where
  "passes lo f p =
     ((flt (Num 0) (MinPrice f) \<longrightarrow> fle (MinPrice f) (Num (PriceValue p)))
      \<and> (flt (Num 0) (MaxPrice f) \<longrightarrow> fle (Num (PriceValue p)) (MaxPrice f))
      \<and> (case InStock_f f of None \<Rightarrow> True | Some st \<Rightarrow> InStock p = st)
      \<and> (flt (Num 0) (MinRating f) \<longrightarrow> fle (MinRating f) (Num (ParseRating (Rating p))))
      \<and> (Source_f f \<noteq> [] \<longrightarrow>
            sublist (ToLower lo (Source_f f)) (ToLower lo (Source p))
            \<or> sublist (ToLower lo (Source p)) (ToLower lo (Source_f f))))"

text \<open>A list is ordered by a field and an order: the prices, the ratings or the names
  ascend, or descend for the order \<^verbatim>\<open>desc\<close>.\<close>

definition ordered_by :: "Sort \<Rightarrow> Product list \<Rightarrow> bool" where
  "ordered_by sp xs =
     (if Field' sp = ''price''
        then (if Order sp = ''desc'' then sorted (rev (map PriceValue xs)) else sorted (map PriceValue xs))
      else if Field' sp = ''rating''
        then (if Order sp = ''desc'' then sorted (rev (map (\<lambda>p. ParseRating (Rating p)) xs))
              else sorted (map (\<lambda>p. ParseRating (Rating p)) xs))
      else if Field' sp = ''name''
        then (if Order sp = ''desc'' then sorted (rev (map Name xs)) else sorted (map Name xs))
      else True)"

text \<open>The listings of a successful retriever: it returned a slice and no error. A
  retriever fails when it returns an error or panics.\<close>

definition listings :: "outcome \<Rightarrow> Product list" where
  "listings out = (case out of Returns (Some ps) None \<Rightarrow> ps | _ \<Rightarrow> [])"

definition fails :: "outcome \<Rightarrow> bool" where
  "fails out = (case out of Panics \<Rightarrow> True | Returns ps (Some e) \<Rightarrow> True | Returns ps None \<Rightarrow> False)"

text \<open>The contract of a retriever (section 4.2): with an error comes no listing. Every
  retriever of the repository returns its error together with the empty slice.\<close>

definition error_without_listings :: "outcome \<Rightarrow> bool" where
  "error_without_listings out =
     (case out of Returns (Some ps) (Some e) \<Rightarrow> ps = [] | _ \<Rightarrow> True)"

text \<open>The region a request is searched in: the default region IN for none given, in
  upper case (lines 47 to 49 and 69 of the service).\<close>

definition region :: "(string \<Rightarrow> string) \<Rightarrow> SearchParams \<Rightarrow> string" where
  "region up params = ToUpper up (if Country params = [] then ''IN'' else Country params)"





section \<open>Concrete inputs\<close>

text \<open>A listing with a name, a price text and a source.\<close>

definition listing :: "string \<Rightarrow> string \<Rightarrow> string \<Rightarrow> Product" where
  "listing n p s =
     \<lparr>ID = n, Name = n, Price = p, Currency = ''USD'', URL = [], Image = [], Rating = [],
      Reviews = [], Source = s, ScrapedAt = 0, InStock = True, Description = [], PriceValue = 0\<rparr>"

definition request :: "string \<Rightarrow> string \<Rightarrow> int \<Rightarrow> int \<Rightarrow> SearchParams" where
  "request q c p l = \<lparr>Query = q, Country = c, Page = p, Limit = l, Filters = None, Sort = None\<rparr>"

text \<open>Two sorts that keep the promise of \<^verbatim>\<open>sort.Slice\<close>: insertion from the right end,
  which is stable, and insertion from the left end, which turns equal elements
  around.\<close>

fun ins_by :: "('a \<Rightarrow> 'a \<Rightarrow> bool) \<Rightarrow> 'a \<Rightarrow> 'a list \<Rightarrow> 'a list" where
  "ins_by lt x [] = [x]"
| "ins_by lt x (y # ys) = (if lt y x then y # ins_by lt x ys else x # y # ys)"

definition stable_sort :: "('a \<Rightarrow> 'a \<Rightarrow> bool) \<Rightarrow> 'a list \<Rightarrow> 'a list" where
  "stable_sort lt xs = foldr (ins_by lt) xs []"

definition unstable_sort :: "('a \<Rightarrow> 'a \<Rightarrow> bool) \<Rightarrow> 'a list \<Rightarrow> 'a list" where
  "unstable_sort lt xs = foldl (\<lambda>acc x. ins_by lt x acc) [] xs"

text \<open>A formatting for the concrete worlds: the decimal expansion of a number, rounded
  half to even. No theorem depends on the choice.\<close>

definition plain_format :: "nat \<Rightarrow> float64 \<Rightarrow> string" where
  "plain_format d v =
     (case v of Num x \<Rightarrow> show_fixed d x | PosInf \<Rightarrow> ''+Inf'' | NegInf \<Rightarrow> ''-Inf'' | NaN \<Rightarrow> ''NaN'')"

text \<open>A world without a cache in which every retriever finds nothing (its case
  mappings are never asked: the concrete requests are ASCII), and one in which
  the cache answers every call with an error, Amazon panics, eBay returns three listings
  and every other retriever returns an error.\<close>

definition quiet :: Env where
  "quiet =
     \<lparr>cache_up = False, cache_get = (\<lambda>k. Miss), cache_set = (\<lambda>k r. None),
      search = (\<lambda>r q c. Returns (Some []) None), rank = (\<lambda>r. 0), elapsed = ''1ms'',
      sort_Slice = stable_sort, lower_map = (\<lambda>s. s), upper_map = (\<lambda>s. s),
      format_float = plain_format\<rparr>"

definition three :: "Product list" where
  "three = [listing ''a'' ''$30'' ''eBay'', listing ''b'' ''$10'' ''eBay'', listing ''c'' ''$20'' ''eBay'']"

definition flaky :: Env where
  "flaky =
     quiet\<lparr>cache_up := True, cache_get := (\<lambda>k. GetError ''redis get error''),
           cache_set := (\<lambda>k r. Some ''redis set error''),
           search := (\<lambda>r q c. case r of Amazon \<Rightarrow> Panics | Ebay \<Rightarrow> Returns (Some three) None
                                   | _ \<Rightarrow> Returns (Some []) (Some ''all scraping attempts failed''))\<rparr>"

text \<open>A world in which every retriever fails: Amazon panics, the others return nil and
  an error.\<close>

definition dead :: Env where
  "dead = quiet\<lparr>search := (\<lambda>r q c. case r of Amazon \<Rightarrow> Panics | _ \<Rightarrow> Returns None (Some ''timeout''))\<rparr>"
section \<open>The normaliser is total\<close>

lemma float64_overflow_factor: "float64_overflow = 2 ^ 970 * (2 ^ 54 - 1)"
  unfolding float64_overflow_def by (simp add: algebra_simps flip: power_add)

lemma small_not_overflows: "v < 2 ^ 64 \<Longrightarrow> \<not> overflows v"
proof -
  assume a: "v < 2 ^ 64"
  have "(2::real) ^ 64 * 1 \<le> 2 ^ 970 * (2 ^ 54 - 1)"
    by (intro mult_mono power_increasing) simp_all
  then show ?thesis
    using a unfolding float64_overflow_factor overflows_def by linarith
qed

lemmas price_eval =
  ParsePrice_def ParseRating_def ReplaceAll_del_def TrimSpace_def isSpace_def
  FindString_num_def isNum_def isDigit_def ParseFloat_def digits_val_def digit_val_def
  Let_def small_not_overflows

lemma isSpace_not_isNum: "isSpace c \<Longrightarrow> \<not> isNum c"
  by (auto simp: isSpace_def isNum_def isDigit_def)

lemma dropWhile_skip_prefix:
  "\<forall>x \<in> set pre. Q x \<Longrightarrow> dropWhile Q (pre @ s) = dropWhile Q s"
  by (induction pre) simp_all

lemma takeWhile_none: "\<forall>x \<in> set suf. \<not> P x \<Longrightarrow> takeWhile P suf = []"
  by (cases suf) simp_all

lemma takeWhile_append_none:
  "\<forall>x \<in> set suf. \<not> P x \<Longrightarrow> takeWhile P (s @ suf) = takeWhile P s"
  by (induction s) (simp_all add: takeWhile_none)

lemma takeWhile_drop_suffix:
  assumes "\<forall>x \<in> set suf. \<not> isNum x"
  shows "takeWhile isNum (dropWhile (\<lambda>c. \<not> isNum c) (s @ suf)) =
         takeWhile isNum (dropWhile (\<lambda>c. \<not> isNum c) s)"
proof (induction s)
  case Nil
  have h: "dropWhile (\<lambda>c. \<not> isNum c) suf = []"
    using assms by (simp add: dropWhile_eq_Nil_conv)
  show ?case unfolding append_Nil h by simp
next
  case (Cons a s)
  show ?case
  proof (cases "isNum a")
    case True
    then show ?thesis
      using assms by (simp add: takeWhile_append_none)
  next
    case False
    then show ?thesis
      using Cons.IH by simp
  qed
qed

text \<open>What the regular expression finds does not depend on bytes outside \<^verbatim>\<open>[\d.]\<close>
  at either end of the text: trimming white space, ASCII or not, changes nothing.\<close>

lemma FindString_num_trim:
  assumes "\<forall>x \<in> set pre. \<not> isNum x" and "\<forall>x \<in> set suf. \<not> isNum x"
  shows "FindString_num (pre @ s @ suf) = FindString_num s"
  unfolding FindString_num_def
  using dropWhile_skip_prefix [of pre "\<lambda>c. \<not> isNum c" "s @ suf"] assms
  by (simp add: takeWhile_drop_suffix)

lemma TrimSpace_decompose:
  "\<exists>pre suf. s = pre @ TrimSpace s @ suf \<and> (\<forall>x \<in> set pre. isSpace x) \<and> (\<forall>x \<in> set suf. isSpace x)"
proof -
  let ?t = "dropWhile isSpace s"
  let ?pre = "takeWhile isSpace s"
  let ?suf = "rev (takeWhile isSpace (rev ?t))"
  have "rev (takeWhile isSpace (rev ?t) @ dropWhile isSpace (rev ?t)) = ?t"
    by (simp only: takeWhile_dropWhile_id rev_rev_ident)
  then have "rev (dropWhile isSpace (rev ?t)) @ ?suf = ?t"
    by (simp only: rev_append)
  then have t: "TrimSpace s @ ?suf = ?t"
    by (simp only: TrimSpace_def)
  have "?pre @ (TrimSpace s @ ?suf) = s"
    unfolding t by (rule takeWhile_dropWhile_id)
  then have 1: "s = ?pre @ TrimSpace s @ ?suf"
    by (rule sym)
  have 2: "\<forall>x \<in> set ?pre. isSpace x" by (auto dest: set_takeWhileD)
  have 3: "\<forall>x \<in> set ?suf. isSpace x" by (auto dest: set_takeWhileD)
  show ?thesis
  proof (intro exI conjI)
    show "s = ?pre @ TrimSpace s @ ?suf" by (rule 1)
    show "\<forall>x \<in> set ?pre. isSpace x" by (rule 2)
    show "\<forall>x \<in> set ?suf. isSpace x" by (rule 3)
  qed
qed

lemma FindString_num_TrimSpace: "FindString_num (TrimSpace s) = FindString_num s"
proof -
  obtain pre suf where d: "s = pre @ TrimSpace s @ suf"
    and p: "\<forall>x \<in> set pre. isSpace x" and q: "\<forall>x \<in> set suf. isSpace x"
    using TrimSpace_decompose by blast
  have e: "FindString_num (pre @ TrimSpace s @ suf) = FindString_num (TrimSpace s)"
    using p q by (intro FindString_num_trim) (auto dest: isSpace_not_isNum)
  have "FindString_num s = FindString_num (pre @ TrimSpace s @ suf)"
    by (rule arg_cong [OF d])
  then show ?thesis
    unfolding e by (rule sym)
qed

lemma ParseFloat_Nil: "ParseFloat [] = None"
  by (simp add: ParseFloat_def)

lemma ParseFloat_nonneg: "ParseFloat s = Some v \<Longrightarrow> 0 \<le> v"
  by (auto simp: ParseFloat_def Let_def split: if_splits)

lemma ParsePrice_char:
  "ParsePrice s = (case ParseFloat (FindString_num (stripped s)) of None \<Rightarrow> 0 | Some v \<Rightarrow> v)"
proof (cases "s = []")
  case True
  then show ?thesis
    by (simp add: ParsePrice_def stripped_def ReplaceAll_del_def FindString_num_def ParseFloat_Nil)
next
  case False
  then show ?thesis
    by (auto simp: ParsePrice_def stripped_def Let_def FindString_num_TrimSpace ParseFloat_Nil)
qed

text \<open>
  C6: \<open>ParsePrice\<close> returns a number for every string: the value of the first run of
  digits and dots of the text without \<^verbatim>\<open>$\<close> and \<^verbatim>\<open>,\<close>, and 0 when there is no such run
  or the run is not a number (two dots, no digit, or too large for a \<^verbatim>\<open>float64\<close>); it is
  never negative. On the empty string it is 0, on \<^verbatim>\<open>$1,234.56\<close> it is 1234.56, on
  \<^verbatim>\<open>no price\<close> it is 0.
\<close>

theorem ParsePrice_total:
  "ParsePrice s = (case ParseFloat (FindString_num (stripped s)) of None \<Rightarrow> 0 | Some v \<Rightarrow> v)
   \<and> (FindString_num (stripped s) = [] \<longrightarrow> ParsePrice s = 0)
   \<and> (ParseFloat (FindString_num (stripped s)) = None \<longrightarrow> ParsePrice s = 0)
   \<and> 0 \<le> ParsePrice s
   \<and> ParsePrice [] = 0
   \<and> ParsePrice ''$1,234.56'' = 1234.56
   \<and> ParsePrice ''no price'' = 0"
proof -
  have c: "ParsePrice s = (case ParseFloat (FindString_num (stripped s)) of None \<Rightarrow> 0 | Some v \<Rightarrow> v)"
    by (rule ParsePrice_char)
  have n: "0 \<le> ParsePrice s"
    unfolding c by (auto split: option.splits dest: ParseFloat_nonneg)
  have e1: "ParsePrice [] = 0" by (simp add: price_eval)
  have e2: "ParsePrice ''$1,234.56'' = 1234.56" by (simp add: price_eval)
  have e3: "ParsePrice ''no price'' = 0" by (simp add: price_eval)
  have a: "FindString_num (stripped s) = [] \<longrightarrow> ParsePrice s = 0"
    unfolding c by (simp add: ParseFloat_Nil)
  have b: "ParseFloat (FindString_num (stripped s)) = None \<longrightarrow> ParsePrice s = 0"
    unfolding c by simp
  show ?thesis
    by (intro conjI) (rule c a b n e1 e2 e3)+
qed

theorem ParsePrice_total_witness:
  "FindString_num (stripped ''N/A'') = [] \<and> ParsePrice ''N/A'' = 0
   \<and> FindString_num (stripped ''v1.2.3'') = ''1.2.3'' \<and> ParseFloat ''1.2.3'' = None
   \<and> ParsePrice ''v1.2.3'' = 0"
  using ParsePrice_total [of "''N/A''"] ParsePrice_total [of "''v1.2.3''"]
  by (simp add: stripped_def price_eval)
section \<open>The filter stage\<close>

lemma HasPrefix_prefix: "HasPrefix s sub \<longleftrightarrow> prefix sub s"
  by (induction s sub rule: HasPrefix.induct) auto

lemma Contains_sublist: "Contains s sub \<longleftrightarrow> sublist sub s"
proof (induction s)
  case Nil
  then show ?case by simp
next
  case (Cons x s)
  then show ?case
    by (simp add: HasPrefix_prefix sublist_Cons_right)
qed

text \<open>Above a bound that is set, "not less" is "at least": the bound is not NaN.\<close>

lemma not_flt_lower: "flt (Num 0) b \<Longrightarrow> (\<not> flt (Num x) b) = fle b (Num x)"
  by (cases b) (simp_all add: flt_def fle_def not_less)

lemma not_flt_upper: "flt (Num 0) b \<Longrightarrow> (\<not> flt b (Num x)) = fle (Num x) b"
  by (cases b) (simp_all add: flt_def fle_def not_less)

lemma applyFilters_loop_step:
  "applyFilters_loop lo f (p # ps) acc =
     (if passes lo f p then applyFilters_loop lo f ps (acc @ [p]) else applyFilters_loop lo f ps acc)"
proof -
  have a: "(flt (Num 0) (MinPrice f) \<and> flt (Num (PriceValue p)) (MinPrice f))
           = (\<not> (flt (Num 0) (MinPrice f) \<longrightarrow> fle (MinPrice f) (Num (PriceValue p))))"
    using not_flt_lower [of "MinPrice f" "PriceValue p"] by blast
  have b: "(flt (Num 0) (MaxPrice f) \<and> flt (MaxPrice f) (Num (PriceValue p)))
           = (\<not> (flt (Num 0) (MaxPrice f) \<longrightarrow> fle (Num (PriceValue p)) (MaxPrice f)))"
    using not_flt_upper [of "MaxPrice f" "PriceValue p"] by blast
  have c: "(flt (Num 0) (MinRating f) \<and> flt (Num (ParseRating (Rating p))) (MinRating f))
           = (\<not> (flt (Num 0) (MinRating f) \<longrightarrow> fle (MinRating f) (Num (ParseRating (Rating p)))))"
    using not_flt_lower [of "MinRating f" "ParseRating (Rating p)"] by blast
  show ?thesis
  proof (cases "InStock_f f")
    case None
    then show ?thesis
      unfolding applyFilters_loop.simps passes_def Contains_sublist a b c by simp
  next
    case (Some st)
    then show ?thesis
      unfolding applyFilters_loop.simps passes_def Contains_sublist a b c by simp
  qed
qed

lemma applyFilters_loop_filter:
  "applyFilters_loop lo f ps acc = acc @ filter (passes lo f) ps"
proof (induction ps arbitrary: acc)
  case Nil
  show ?case by simp
next
  case (Cons p ps)
  show ?case
    unfolding applyFilters_loop_step by (simp add: Cons.IH)
qed

text \<open>
  C5: the filter stage keeps exactly the listings that pass the filter, in their order,
  and without a filter it returns the list as it is. This holds whatever the case mapping
  of \<^verbatim>\<open>unicode\<close> is.
\<close>

theorem applyFilters_retains:
  "applyFilters lo ps None = ps
   \<and> applyFilters lo ps (Some f) = filter (passes lo f) ps
   \<and> (p \<in> set (applyFilters lo ps (Some f)) \<longleftrightarrow> p \<in> set ps \<and> passes lo f p)"
  by (simp add: applyFilters_def applyFilters_loop_filter)

lemmas string_eval =
  ToLower_def ToUpper_def isASCII_def toLower_char_def toUpper_char_def upper_letters_def
  lower_letters_def

lemmas float_eval = flt_def fle_def

theorem applyFilters_retains_witness:
  "applyFilters (\<lambda>s. s) (processProducts three)
     (Some \<lparr>MinPrice = Num 15, MaxPrice = Num 0, InStock_f = Some True, MinRating = NaN,
            Source_f = ''EBAY (Test)''\<rparr>)
   = [(listing ''a'' ''$30'' ''eBay'')\<lparr>PriceValue := 30\<rparr>, (listing ''c'' ''$20'' ''eBay'')\<lparr>PriceValue := 20\<rparr>]"
  using applyFilters_retains
    [of "\<lambda>s. s" "processProducts three"
        "\<lparr>MinPrice = Num 15, MaxPrice = Num 0, InStock_f = Some True, MinRating = NaN,
          Source_f = ''EBAY (Test)''\<rparr>"]
  by (simp add: passes_def three_def listing_def processProducts_def price_eval string_eval
      float_eval flip: Contains_sublist)

section \<open>Listings without a price\<close>

lemma processProducts_set:
  "set (processProducts ps) = (\<lambda>p. p\<lparr>PriceValue := ParsePrice (Price p)\<rparr>) ` set ps"
  by (simp add: processProducts_def)

text \<open>
  C10: when the filter sets a minimum price above 0, a listing whose price text has no
  number the normaliser can read (no run of digits and dots, or a run that is no number)
  gets the price value 0 and is not in the filtered list; nothing with the price value 0
  is.
\<close>

theorem unparseable_price_dropped:
  assumes "flt (Num 0) (MinPrice f)"
    and "ParseFloat (FindString_num (stripped (Price p))) = None"
  shows "ParsePrice (Price p) = 0
         \<and> p\<lparr>PriceValue := ParsePrice (Price p)\<rparr> \<notin> set (applyFilters lo (processProducts ps) (Some f))
         \<and> (\<forall>q \<in> set (applyFilters lo (processProducts ps) (Some f)). PriceValue q \<noteq> 0)"
proof -
  have z: "ParsePrice (Price p) = 0"
    using assms(2) by (simp add: ParsePrice_char)
  have "\<not> fle (MinPrice f) (Num 0)"
    using assms(1) by (cases "MinPrice f") (simp_all add: flt_def fle_def)
  then have all: "\<forall>q \<in> set (applyFilters lo (processProducts ps) (Some f)). PriceValue q \<noteq> 0"
    using assms(1) by (auto simp: applyFilters_def applyFilters_loop_filter passes_def)
  have "PriceValue (p\<lparr>PriceValue := ParsePrice (Price p)\<rparr>) = 0"
    using z by simp
  with all have "p\<lparr>PriceValue := ParsePrice (Price p)\<rparr> \<notin> set (applyFilters lo (processProducts ps) (Some f))"
    by blast
  with z all show ?thesis by blast
qed

theorem unparseable_price_dropped_witness:
  "ParsePrice ''call us'' = 0
   \<and> applyFilters (\<lambda>s. s) (processProducts [listing ''a'' ''call us'' ''eBay'', listing ''b'' ''$10'' ''eBay''])
        (Some \<lparr>MinPrice = Num 5, MaxPrice = Num 0, InStock_f = None, MinRating = Num 0, Source_f = []\<rparr>)
      = [(listing ''b'' ''$10'' ''eBay'')\<lparr>PriceValue := 10\<rparr>]"
proof -
  let ?f = "\<lparr>MinPrice = Num 5, MaxPrice = Num 0, InStock_f = None, MinRating = Num 0, Source_f = []\<rparr>"
  have 1: "flt (Num 0) (MinPrice ?f)" by (simp add: flt_def)
  have 2: "ParseFloat (FindString_num (stripped (Price (listing ''a'' ''call us'' ''eBay'')))) = None"
    by (simp add: listing_def stripped_def price_eval)
  have "ParsePrice (Price (listing ''a'' ''call us'' ''eBay'')) = 0"
    using unparseable_price_dropped [OF 1 2, of "\<lambda>s. s" "[]"] by blast
  then have a: "ParsePrice ''call us'' = 0"
    by (simp add: listing_def)
  have b: "applyFilters (\<lambda>s. s) (processProducts [listing ''a'' ''call us'' ''eBay'', listing ''b'' ''$10'' ''eBay'']) (Some ?f)
      = [(listing ''b'' ''$10'' ''eBay'')\<lparr>PriceValue := 10\<rparr>]"
    by (simp add: applyFilters_def listing_def processProducts_def price_eval float_eval)
  from a b show ?thesis by (rule conjI)
qed

section \<open>Validation and the errors of a search\<close>

lemma contains_set: "contains xs item \<longleftrightarrow> item \<in> set xs"
  by (induction xs) auto

text \<open>For a rating that is not NaN, outside 0..5 is below 0 or above 5.\<close>

lemma outside_0_5:
  "r \<noteq> NaN \<Longrightarrow> (flt r (Num 0) \<or> flt (Num 5) r) = (\<not> (fle (Num 0) r \<and> fle r (Num 5)))"
  by (cases r) (auto simp: flt_def fle_def)

lemma outside_0_5_imp: "flt r (Num 0) \<or> flt (Num 5) r \<Longrightarrow> \<not> (fle (Num 0) r \<and> fle r (Num 5))"
  by (cases r) (auto simp: flt_def fle_def)

text \<open>When the validation returns an error.\<close>

lemma validate_error_iff_code:
  "(\<exists>e. validateSearchParams params = Inl e) \<longleftrightarrow>
     (Query params = []
      \<or> (case Filters params of
            None \<Rightarrow> False
          | Some f \<Rightarrow> flt (MinPrice f) (Num 0)
                      \<or> (flt (Num 0) (MaxPrice f) \<and> flt (MaxPrice f) (MinPrice f))
                      \<or> (flt (MinRating f) (Num 0) \<or> flt (Num 5) (MinRating f)))
      \<or> (case Sort params of
            None \<Rightarrow> False
          | Some sp \<Rightarrow> \<not> (Field' sp \<in> {''price'', ''rating'', ''name''} \<and> Order sp \<in> {''asc'', ''desc''})))"
  unfolding validateSearchParams_def Let_def
  by (auto simp: contains_set validFields_def validOrders_def split: option.splits)

text \<open>Every request the validation rejects is invalid.\<close>

lemma validate_error_invalid:
  assumes "\<exists>e. validateSearchParams params = Inl e"
  shows "invalid_request params"
proof (cases "Filters params")
  case None
  then show ?thesis
    using assms unfolding validate_error_iff_code invalid_request_def by simp
next
  case (Some f)
  show ?thesis
    using assms Some outside_0_5_imp [of "MinRating f"]
    unfolding validate_error_iff_code invalid_request_def by auto
qed

text \<open>An invalid request whose minimum rating is not NaN is rejected.\<close>

lemma validate_invalid_error:
  assumes "invalid_request params"
    and "case Filters params of None \<Rightarrow> True | Some f \<Rightarrow> MinRating f \<noteq> NaN"
  shows "\<exists>e. validateSearchParams params = Inl e"
proof (cases "Filters params")
  case None
  then show ?thesis
    using assms(1) unfolding validate_error_iff_code invalid_request_def by simp
next
  case (Some f)
  with assms(2) have "MinRating f \<noteq> NaN" by simp
  from outside_0_5 [OF this] show ?thesis
    using assms(1) Some unfolding validate_error_iff_code invalid_request_def by auto
qed

text \<open>A request that is not invalid passes, with the page and the limit set.\<close>

lemma validate_ok:
  assumes "\<not> invalid_request params"
  shows "validateSearchParams params =
           Inr (params\<lparr>Page := (if Page params \<le> 0 then 1 else Page params),
                       Limit := (if Limit params \<le> 0 then 10
                                 else if 100 < Limit params then 100 else Limit params)\<rparr>)"
proof -
  have "\<not> (\<exists>e. validateSearchParams params = Inl e)"
    using assms validate_error_invalid by blast
  then obtain p where p: "validateSearchParams params = Inr p"
    by (cases "validateSearchParams params") auto
  then have "p = params\<lparr>Page := (if Page params \<le> 0 then 1 else Page params),
                       Limit := (if Limit params \<le> 0 then 10
                                 else if 100 < Limit params then 100 else Limit params)\<rparr>"
    unfolding validateSearchParams_def Let_def
    by (auto split: option.splits if_splits)
  with p show ?thesis by simp
qed

lemma invalid_request_Country:
  "invalid_request (params\<lparr>Country := c\<rparr>) = invalid_request params"
  by (simp add: invalid_request_def)

lemma SearchProducts_Failed:
  "is_Failed (fst (SearchProducts env params)) \<longleftrightarrow>
   (\<exists>e. validateSearchParams (if Country params = [] then params\<lparr>Country := ''IN''\<rparr> else params) = Inl e)"
  unfolding SearchProducts_def Let_def
  by (simp split: sum.splits cache_reply.splits paged.splits)

text \<open>Whatever the retrievers and the cache do, \<open>SearchProducts\<close> returns an error only
  for an invalid request, and for every invalid request whose minimum rating is a number
  or an infinity.\<close>

lemma SearchProducts_error_iff_number:
  assumes "case Filters params of None \<Rightarrow> True | Some f \<Rightarrow> MinRating f \<noteq> NaN"
  shows "is_Failed (fst (SearchProducts env params)) \<longleftrightarrow> invalid_request params"
proof -
  let ?p = "if Country params = [] then params\<lparr>Country := ''IN''\<rparr> else params"
  have i: "invalid_request ?p = invalid_request params"
    by (simp add: invalid_request_Country)
  have n: "case Filters ?p of None \<Rightarrow> True | Some f \<Rightarrow> MinRating f \<noteq> NaN"
    using assms by simp
  show ?thesis
    unfolding SearchProducts_Failed
    using validate_error_invalid [of ?p] validate_invalid_error [OF _ n] i by blast
qed

lemmas service_eval =
  SearchProducts_def validateSearchParams_def GenerateSearchKey_def Let_def request_def
  quiet_def flaky_def dead_def launched_def scrapeAllSources_def appended_def
  processProducts_def applyFilters_def applySorting_def applyPagination_def subslice_def
  ceil_quot_def wrap64_def sourceInfo_def show_int_def show_nat.simps digit_char_def
  three_def listing_def string_eval float_eval

text \<open>
  C1 at a minimum rating that is NaN: the handler reads \<^verbatim>\<open>min_rating=NaN\<close> as a
  \<^verbatim>\<open>float64\<close>, the rating is not within 0..5 and the request is invalid, both
  comparisons of the validation are false, and \<open>SearchProducts\<close> returns a response.
\<close>

theorem NaN_rating_accepted:
  "\<not> (fle (Num 0) NaN \<and> fle NaN (Num 5))
   \<and> invalid_request ((request ''tv'' ''US'' 1 10)
        \<lparr>Filters := Some \<lparr>MinPrice = Num 0, MaxPrice = Num 0, InStock_f = None, MinRating = NaN, Source_f = []\<rparr>\<rparr>)
   \<and> is_Ok (fst (SearchProducts quiet ((request ''tv'' ''US'' 1 10)
        \<lparr>Filters := Some \<lparr>MinPrice = Num 0, MaxPrice = Num 0, InStock_f = None, MinRating = NaN, Source_f = []\<rparr>\<rparr>)))"
  by (simp add: service_eval invalid_request_def)

section \<open>The empty query\<close>

text \<open>
  C8, as the code has it: a request whose query is the empty string gets the validation
  error, and no call to the cache or to a retriever is made. The query is not trimmed.
\<close>

theorem empty_query_rejected:
  "Query params = [] \<Longrightarrow>
   SearchProducts env params = (Failed ''search query cannot be empty'', [])"
  by (simp add: SearchProducts_def validateSearchParams_def)

theorem empty_query_rejected_witness:
  "Query (request [] ''US'' 1 10) = []
   \<and> SearchProducts flaky (request [] ''US'' 1 10) = (Failed ''search query cannot be empty'', [])"
  using empty_query_rejected [of "request [] ''US'' 1 10" flaky]
  by (simp add: request_def)

text \<open>A query of two spaces is empty after trimming; this request with it is searched
  for.\<close>

theorem blank_query_searched:
  "TrimSpace ''  '' = []
   \<and> is_Ok (fst (SearchProducts quiet (request ''  '' [] 1 10)))
   \<and> snd (SearchProducts quiet (request ''  '' [] 1 10))
       = [Search Amazon ''  '' ''IN'', Search Ebay ''  '' ''IN'', Search Flipkart ''  '' ''IN'']"
  by (simp add: service_eval TrimSpace_def isSpace_def)

section \<open>The source list of a response\<close>

text \<open>
  C9 at region US: the retrievers called are Amazon, eBay, Walmart, Target and Best Buy,
  and the source list of the response names Amazon and eBay only.
\<close>

theorem source_list_US:
  "snd (SearchProducts quiet (request ''tv'' ''US'' 1 10))
     = [Search Amazon ''tv'' ''US'', Search Ebay ''tv'' ''US'', Search Walmart ''tv'' ''US'',
        Search Target ''tv'' ''US'', Search BestBuy ''tv'' ''US'']
   \<and> (case fst (SearchProducts quiet (request ''tv'' ''US'' 1 10)) of
        Ok resp \<Rightarrow> Source_r resp | _ \<Rightarrow> []) = ''Amazon, eBay''"
  by (simp add: service_eval)

text \<open>At region IN the two agree.\<close>

lemma source_list_IN:
  "snd (SearchProducts quiet (request ''tv'' ''in'' 1 10))
     = [Search Amazon ''tv'' ''IN'', Search Ebay ''tv'' ''IN'', Search Flipkart ''tv'' ''IN'']
   \<and> (case fst (SearchProducts quiet (request ''tv'' ''in'' 1 10)) of
        Ok resp \<Rightarrow> Source_r resp | _ \<Rightarrow> []) = ''Amazon, eBay, Flipkart''"
  by (simp add: service_eval)

section \<open>Pagination\<close>

lemma wrap64_id: "in_int64 x \<Longrightarrow> wrap64 x = x"
  unfolding wrap64_def in_int64_def by (simp add: mod_pos_pos_trivial)

lemma ceil_quot_ceiling: "0 < limit \<Longrightarrow> ceil_quot n limit = \<lceil>real_of_int n / real_of_int limit\<rceil>"
  by (simp add: ceil_quot_def ceiling_divide_eq_div)

text \<open>As long as \<open>(page - 1) * limit\<close> fits in 64 bits, the page is the slice from
  \<open>start\<close> to \<open>min (start + limit) total\<close>, or empty when \<open>start\<close> is beyond the
  end, and the page count is the ceiling of \<open>total / limit\<close>.\<close>

lemma applyPagination_in_range:
  assumes "1 \<le> page" and "1 \<le> limit" and "limit \<le> 100"
    and "(page - 1) * limit < 2 ^ 63" and "int (length ps) + 100 < 2 ^ 63"
  shows "applyPagination ps page limit =
           Paged (if int (length ps) \<le> (page - 1) * limit then []
                  else subslice ps (nat ((page - 1) * limit)) (min (nat ((page - 1) * limit + limit)) (length ps)))
             \<lceil>real (length ps) / real_of_int limit\<rceil>"
proof -
  have p: "page - 1 \<le> (page - 1) * limit"
    using assms(1,2) by (simp add: mult_le_cancel_left1)
  have s0: "0 \<le> (page - 1) * limit" using assms(1,2) by simp
  have "- (2 ^ 63) \<le> page - 1 \<and> page - 1 < (2 ^ 63 :: int)"
    using assms(1,4) p by simp
  then have w1: "wrap64 (page - 1) = page - 1"
    by (intro wrap64_id) (simp add: in_int64_def)
  have "- (2 ^ 63) \<le> (page - 1) * limit \<and> (page - 1) * limit < (2 ^ 63 :: int)"
    using assms(4) s0 by simp
  then have w2: "wrap64 ((page - 1) * limit) = (page - 1) * limit"
    by (intro wrap64_id) (simp add: in_int64_def)
  have c: "ceil_quot (int (length ps)) limit = \<lceil>real (length ps) / real_of_int limit\<rceil>"
    using assms(2) by (simp add: ceil_quot_ceiling)
  show ?thesis
  proof (cases "int (length ps) \<le> (page - 1) * limit")
    case True
    then show ?thesis
      unfolding applyPagination_def Let_def w1 w2 c by simp
  next
    case False
    then have "- (2 ^ 63) \<le> (page - 1) * limit + limit \<and> (page - 1) * limit + limit < (2 ^ 63 :: int)"
      using assms(2,3,5) s0 by simp
    then have w3: "wrap64 ((page - 1) * limit + limit) = (page - 1) * limit + limit"
      by (intro wrap64_id) (simp add: in_int64_def)
    from False show ?thesis
      unfolding applyPagination_def Let_def w1 w2 w3 c
      using s0 assms(2) by (auto simp: min_def nat_less_iff)
  qed
qed

text \<open>25 listings: page 3 of size 10 is the listings 20 to 24, page 4 is empty, and both
  count 3 pages.\<close>

lemma applyPagination_25:
  assumes "length ps = 25"
  shows "applyPagination ps 3 10 = Paged (subslice ps 20 25) 3"
    and "applyPagination ps 4 10 = Paged [] 3"
  using assms by (simp_all add: applyPagination_def wrap64_def ceil_quot_def)

text \<open>
  C3 where the multiplication overflows: page 92233720368547760 with page size 100 is a
  page number of 64 bits, \<open>(page - 1) * limit\<close> wraps around to a negative \<open>start\<close>,
  and the slice expression panics; page 4611686018427387905 wraps around to \<open>start = 0\<close>
  and gets the first page. The page asked for is beyond the end of every list.
\<close>

theorem applyPagination_overflow:
  "in_int64 92233720368547760
   \<and> applyPagination ps 92233720368547760 100 = SlicePanic
   \<and> in_int64 4611686018427387905
   \<and> applyPagination ps 4611686018427387905 100
       = Paged (subslice ps 0 (min 100 (length ps))) (ceil_quot (int (length ps)) 100)"
  by (auto simp: applyPagination_def wrap64_def in_int64_def Let_def min_def subslice_def)

section \<open>The sort stage\<close>

lemma mset_ins_by: "mset (ins_by lt x ys) = add_mset x (mset ys)"
  by (induction ys) simp_all

lemma set_ins_by: "set (ins_by lt x ys) = insert x (set ys)"
  by (induction ys) auto

lemma swo_asym: "strict_weak_order lt \<Longrightarrow> lt a b \<Longrightarrow> \<not> lt b a"
  unfolding strict_weak_order_def by blast

lemma swo_negtrans: "strict_weak_order lt \<Longrightarrow> \<not> lt a b \<Longrightarrow> \<not> lt b c \<Longrightarrow> \<not> lt a c"
  unfolding strict_weak_order_def by blast

lemma sorted_ins_by:
  assumes "strict_weak_order lt"
  shows "sorted_wrt (\<lambda>a b. \<not> lt b a) ys \<Longrightarrow> sorted_wrt (\<lambda>a b. \<not> lt b a) (ins_by lt x ys)"
proof (induction ys)
  case Nil
  show ?case by simp
next
  case (Cons y ys)
  show ?case
  proof (cases "lt y x")
    case True
    have "\<not> lt x y" using assms True by (rule swo_asym)
    with True Cons show ?thesis
      by (auto simp: set_ins_by)
  next
    case False
    have "\<forall>z \<in> set ys. \<not> lt z x"
    proof
      fix z assume "z \<in> set ys"
      with Cons.prems have "\<not> lt z y" by simp
      from assms this False show "\<not> lt z x" by (rule swo_negtrans)
    qed
    with False Cons.prems show ?thesis by simp
  qed
qed

lemma stable_sort_Cons: "stable_sort lt (x # xs) = ins_by lt x (stable_sort lt xs)"
  by (simp add: stable_sort_def)

lemma stable_sort_contract: "sort_Slice_contract stable_sort"
  unfolding sort_Slice_contract_def
proof (intro allI impI)
  fix lt :: "'a \<Rightarrow> 'a \<Rightarrow> bool" and xs
  assume swo: "strict_weak_order lt"
  show "mset (stable_sort lt xs) = mset xs \<and> sorted_wrt (\<lambda>a b. \<not> lt b a) (stable_sort lt xs)"
  proof (induction xs)
    case Nil
    show ?case by (simp add: stable_sort_def)
  next
    case (Cons x xs)
    then show ?case
      unfolding stable_sort_Cons by (simp add: mset_ins_by sorted_ins_by [OF swo])
  qed
qed

lemma unstable_fold:
  assumes "strict_weak_order lt"
  shows "sorted_wrt (\<lambda>a b. \<not> lt b a) acc \<Longrightarrow>
         mset (foldl (\<lambda>acc x. ins_by lt x acc) acc xs) = mset acc + mset xs
         \<and> sorted_wrt (\<lambda>a b. \<not> lt b a) (foldl (\<lambda>acc x. ins_by lt x acc) acc xs)"
proof (induction xs arbitrary: acc)
  case Nil
  then show ?case by simp
next
  case (Cons x xs)
  have "sorted_wrt (\<lambda>a b. \<not> lt b a) (ins_by lt x acc)"
    using Cons.prems by (rule sorted_ins_by [OF assms])
  from Cons.IH [OF this] show ?case
    by (simp add: mset_ins_by)
qed

lemma unstable_sort_contract: "sort_Slice_contract unstable_sort"
  unfolding sort_Slice_contract_def unstable_sort_def
  using unstable_fold [where acc = "[]"] by fastforce

lemma less_by_strict_weak_order: "strict_weak_order (less_by sp)"
  unfolding strict_weak_order_def less_by_def Let_def by auto

lemma sort_Slice_contract_Nil:
  "sort_Slice_contract srt \<Longrightarrow> strict_weak_order lt \<Longrightarrow> srt lt [] = []"
  unfolding sort_Slice_contract_def by (metis mset_zero_iff)

lemma sorted_wrt_key_asc:
  fixes f :: "'a \<Rightarrow> 'b::linorder"
  shows "sorted_wrt (\<lambda>a b. \<not> f b < f a) xs = sorted (map f xs)"
  by (simp add: sorted_map not_less)

lemma sorted_wrt_key_desc:
  fixes f :: "'a \<Rightarrow> 'b::linorder"
  shows "sorted_wrt (\<lambda>a b. \<not> f a < f b) xs = sorted (rev (map f xs))"
  by (simp add: sorted_wrt_rev sorted_wrt_map not_less flip: rev_map)

text \<open>No listing is less than a listing before it, in the comparison of the code, exactly
  when the list is ordered by the field and the order.\<close>

lemma ordered_by_less_by:
  "sorted_wrt (\<lambda>a b. \<not> less_by sp b a) xs \<longleftrightarrow> ordered_by sp xs"
  unfolding less_by_def ordered_by_def Let_def
  by (simp add: sorted_wrt_key_asc sorted_wrt_key_desc)

lemma sorted_mset_unique:
  fixes xs ys :: "'a::linorder list"
  assumes "sorted xs" and "sorted ys" and "mset xs = mset ys"
  shows "xs = ys"
  using assms by (metis properties_for_sort)

text \<open>
  C4, as the code has it: with a sort specification the output of the sort stage is the
  input rearranged and ordered by the field and the order; without one it is the input.
  Prices 30, 10, 20 come out as 10, 20, 30 for price ascending. This holds for every
  implementation of \<^verbatim>\<open>sort.Slice\<close> that keeps what its documentation promises; the order
  of listings with equal keys is not promised.
\<close>

theorem applySorting_sorts:
  assumes "sort_Slice_contract srt"
  shows "applySorting srt ps None = ps
         \<and> mset (applySorting srt ps (Some sp)) = mset ps
         \<and> ordered_by sp (applySorting srt ps (Some sp))
         \<and> (map PriceValue ps = [30, 10, 20] \<longrightarrow>
              map PriceValue (applySorting srt ps (Some \<lparr>Field' = ''price'', Order = ''asc''\<rparr>)) = [10, 20, 30])"
proof -
  have c: "mset (srt (less_by s) ps) = mset ps \<and> sorted_wrt (\<lambda>a b. \<not> less_by s b a) (srt (less_by s) ps)" for s
    using assms less_by_strict_weak_order [of s] unfolding sort_Slice_contract_def by blast
  have 1: "applySorting srt ps None = ps" by (simp add: applySorting_def)
  have 2: "mset (applySorting srt ps (Some sp)) = mset ps"
    using c [of sp] by (simp add: applySorting_def)
  have 3: "ordered_by sp (applySorting srt ps (Some sp))"
    using c [of sp] by (simp add: applySorting_def ordered_by_less_by)
  have 4: "map PriceValue (applySorting srt ps (Some \<lparr>Field' = ''price'', Order = ''asc''\<rparr>)) = [10, 20, 30]"
    if h: "map PriceValue ps = [30, 10, 20]"
  proof -
    let ?out = "applySorting srt ps (Some \<lparr>Field' = ''price'', Order = ''asc''\<rparr>)"
    have "mset ?out = mset ps"
      using c [of "\<lparr>Field' = ''price'', Order = ''asc''\<rparr>"] by (simp add: applySorting_def)
    then have "mset (map PriceValue ?out) = mset (map PriceValue ps)"
      by simp
    then have m: "mset (map PriceValue ?out) = mset [10, 20, 30]"
      unfolding h by simp
    have "ordered_by \<lparr>Field' = ''price'', Order = ''asc''\<rparr> ?out"
      using c [of "\<lparr>Field' = ''price'', Order = ''asc''\<rparr>"]
      by (simp add: applySorting_def ordered_by_less_by)
    then have s: "sorted (map PriceValue ?out)"
      by (simp add: ordered_by_def)
    have "sorted [10, 20, 30 :: real]" by simp
    with s show ?thesis using m by (rule sorted_mset_unique)
  qed
  from 1 2 3 4 show ?thesis by blast
qed

theorem applySorting_sorts_witness:
  "map PriceValue (processProducts three) = [30, 10, 20]
   \<and> map Name (applySorting stable_sort (processProducts three) (Some \<lparr>Field' = ''price'', Order = ''asc''\<rparr>))
       = [''b'', ''c'', ''a'']
   \<and> map PriceValue (applySorting unstable_sort (processProducts three) (Some \<lparr>Field' = ''price'', Order = ''asc''\<rparr>))
       = [10, 20, 30]"
proof -
  have h: "map PriceValue (processProducts three) = [30, 10, 20]"
    by (simp add: processProducts_def three_def listing_def price_eval)
  have a: "map Name (applySorting stable_sort (processProducts three) (Some \<lparr>Field' = ''price'', Order = ''asc''\<rparr>))
       = [''b'', ''c'', ''a'']"
    by (simp add: processProducts_def three_def listing_def price_eval applySorting_def
        stable_sort_def less_by_def)
  have b: "map PriceValue (applySorting unstable_sort (processProducts three) (Some \<lparr>Field' = ''price'', Order = ''asc''\<rparr>))
       = [10, 20, 30]"
    using applySorting_sorts [OF unstable_sort_contract, of "processProducts three"
        "\<lparr>Field' = ''price'', Order = ''asc''\<rparr>"] h
    by blast
  from h a b show ?thesis by blast
qed

text \<open>A sort that keeps the promise of \<^verbatim>\<open>sort.Slice\<close> and turns two listings of equal
  price around: the sort stage is not stable.\<close>

theorem applySorting_not_stable:
  "sort_Slice_contract (unstable_sort :: (Product \<Rightarrow> Product \<Rightarrow> bool) \<Rightarrow> Product list \<Rightarrow> Product list)
   \<and> PriceValue ((listing ''a'' ''$5'' ''eBay'')\<lparr>PriceValue := 5\<rparr>)
       = PriceValue ((listing ''b'' ''$5'' ''eBay'')\<lparr>PriceValue := 5\<rparr>)
   \<and> applySorting unstable_sort
        [(listing ''a'' ''$5'' ''eBay'')\<lparr>PriceValue := 5\<rparr>, (listing ''b'' ''$5'' ''eBay'')\<lparr>PriceValue := 5\<rparr>]
        (Some \<lparr>Field' = ''price'', Order = ''asc''\<rparr>)
      = [(listing ''b'' ''$5'' ''eBay'')\<lparr>PriceValue := 5\<rparr>, (listing ''a'' ''$5'' ''eBay'')\<lparr>PriceValue := 5\<rparr>]"
  by (simp add: unstable_sort_contract applySorting_def unstable_sort_def less_by_def listing_def)

section \<open>Fan-out and fan-in\<close>

lemma sum_list_sort_key:
  fixes g :: "'a \<Rightarrow> 'b multiset"
  shows "(\<Sum>x\<leftarrow>sort_key k xs. g x) = (\<Sum>x\<leftarrow>xs. g x)"
proof -
  have "(\<Sum>x\<leftarrow>sort_key k xs. g x) = sum_mset (image_mset g (mset (sort_key k xs)))"
    by (simp flip: sum_mset_sum_list)
  also have "\<dots> = sum_mset (image_mset g (mset xs))"
    by simp
  also have "\<dots> = (\<Sum>x\<leftarrow>xs. g x)"
    by (simp flip: sum_mset_sum_list)
  finally show ?thesis .
qed

text \<open>Whatever the order of the appends, the aggregate holds what each goroutine
  appended, no more and no less.\<close>

lemma scrapeAllSources_appended:
  "mset (scrapeAllSources up srch ord query country)
   = (\<Sum>r\<leftarrow>launched up country. mset (appended (srch r query country)))"
  unfolding scrapeAllSources_def mset_concat map_map comp_def
  by (rule sum_list_sort_key)

lemma appended_listings: "error_without_listings out \<Longrightarrow> appended out = listings out"
  by (auto simp: error_without_listings_def appended_def listings_def
      split: outcome.splits option.splits)

lemma appended_fails: "error_without_listings out \<Longrightarrow> fails out \<Longrightarrow> appended out = []"
  by (auto simp: error_without_listings_def appended_def fails_def
      split: outcome.splits option.splits)

lemma scrapeAllSources_all_fail:
  assumes "\<forall>r \<in> set (launched up country). error_without_listings (srch r query country)"
    and "\<forall>r \<in> set (launched up country). fails (srch r query country)"
  shows "scrapeAllSources up srch ord query country = []"
  using assms by (simp add: scrapeAllSources_def appended_fails)

lemma applyFilters_Nil: "applyFilters lo [] f = []"
  by (cases f) (simp_all add: applyFilters_def)

lemma applySorting_Nil:
  "sort_Slice_contract srt \<Longrightarrow> applySorting srt [] sp = []"
  by (cases sp) (simp_all add: applySorting_def sort_Slice_contract_Nil less_by_strict_weak_order)

text \<open>A search that passes validation and finds nothing in the cache.\<close>

lemma SearchProducts_miss:
  assumes "validateSearchParams (if Country params = [] then params\<lparr>Country := ''IN''\<rparr> else params) = Inr p"
    and "\<forall>k. \<not> is_Hit (cache_get env k)"
  shows "fst (SearchProducts env params) =
     (let filtered = applySorting (sort_Slice env)
            (applyFilters (lower_map env) (processProducts
               (scrapeAllSources (upper_map env) (search env) (rank env) (Query p)
                  (ToUpper (upper_map env) (Country p)))) (Filters p))
            (Sort p)
      in case applyPagination filtered (Page p) (Limit p) of
           SlicePanic \<Rightarrow> Panicked
         | Paged ps tp \<Rightarrow>
             Ok \<lparr>Query_r = Query p, Products = ps, Total = int (length filtered), Page_r = Page p,
                 Limit_r = Limit p, TotalPages = tp, Source_r = sourceInfo (ToUpper (upper_map env) (Country p)),
                 Filters_r = Filters p, Sort_r = Sort p, Duration = elapsed env\<rparr>)"
proof -
  let ?key = "if cache_up env then GenerateSearchKey (format_float env) p else []"
  have nh: "\<not> is_Hit (if cache_up env then cache_get env ?key else Miss)"
    using assms(2) by simp
  show ?thesis
    unfolding SearchProducts_def Let_def assms(1) sum.case
    using nh by (cases "if cache_up env then cache_get env ?key else Miss")
      (simp_all split: paged.splits)
qed

lemma applyPagination_Nil:
  assumes "1 \<le> page" and "page < 2 ^ 56" and "1 \<le> limit" and "limit \<le> 100"
  shows "applyPagination [] page limit = Paged [] 0"
proof -
  have "(page - 1) * limit \<le> (page - 1) * 100"
    using assms(1,4) by (intro mult_left_mono) simp_all
  then have "(page - 1) * limit < 2 ^ 63"
    using assms(2) by simp
  then show ?thesis
    using applyPagination_in_range [of page limit "[]"] assms by simp
qed

text \<open>
  C2: when no retriever returns listings together with an error (the contract of a
  retriever, which every retriever of the repository keeps), then, whatever each retriever
  does and in whatever order the goroutines finish, the aggregate holds exactly the
  listings of the successful retrievers; a retriever that returns an error or panics adds
  nothing and takes nothing away, a nil slice counts as empty. When every retriever fails,
  the aggregate is empty, and a valid request that the cache does not answer gets a
  response with no listing and total 0 (for a page number below \<open>2 ^ 56\<close> and a
  library sort that keeps its promise).
\<close>

theorem fan_out_isolates_failures:
  assumes "\<forall>r \<in> set (launched up country). error_without_listings (srch r query country)"
  shows "mset (scrapeAllSources up srch ord query country)
           = (\<Sum>r\<leftarrow>launched up country. mset (listings (srch r query country)))
         \<and> ((\<forall>r \<in> set (launched up country). fails (srch r query country)) \<longrightarrow>
              scrapeAllSources up srch ord query country = []
              \<and> (\<forall>env params.
                    upper_map env = up \<and> search env = srch \<and> Query params = query
                    \<and> region up params = country
                    \<and> \<not> invalid_request params \<and> Page params < 2 ^ 56
                    \<and> sort_Slice_contract (sort_Slice env) \<and> (\<forall>k. \<not> is_Hit (cache_get env k)) \<longrightarrow>
                    (case fst (SearchProducts env params) of
                       Ok resp \<Rightarrow> Products resp = [] \<and> Total resp = 0
                     | _ \<Rightarrow> False)))"
proof (intro conjI impI allI)
  have "map (\<lambda>r. mset (appended (srch r query country))) (launched up country)
        = map (\<lambda>r. mset (listings (srch r query country))) (launched up country)"
    using assms by (intro map_cong refl) (simp add: appended_listings)
  then show "mset (scrapeAllSources up srch ord query country)
           = (\<Sum>r\<leftarrow>launched up country. mset (listings (srch r query country)))"
    unfolding scrapeAllSources_appended by (rule arg_cong [where f = sum_list])
next
  assume f: "\<forall>r \<in> set (launched up country). fails (srch r query country)"
  show "scrapeAllSources up srch ord query country = []"
    using assms f by (rule scrapeAllSources_all_fail)
next
  fix env :: Env and params :: SearchParams
  assume f: "\<forall>r \<in> set (launched up country). fails (srch r query country)"
    and v: "upper_map env = up \<and> search env = srch \<and> Query params = query
            \<and> region up params = country
            \<and> \<not> invalid_request params \<and> Page params < 2 ^ 56
            \<and> sort_Slice_contract (sort_Slice env) \<and> (\<forall>k. \<not> is_Hit (cache_get env k))"
  let ?p1 = "if Country params = [] then params\<lparr>Country := ''IN''\<rparr> else params"
  let ?P = "if Page params \<le> 0 then 1 else Page params"
  let ?L = "if Limit params \<le> 0 then 10 else if 100 < Limit params then 100 else Limit params"
  let ?p2 = "?p1\<lparr>Page := ?P, Limit := ?L\<rparr>"
  have nh: "\<forall>k. \<not> is_Hit (cache_get env k)" using v by blast
  have sc: "sort_Slice_contract (sort_Slice env)" using v by blast
  have "\<not> invalid_request ?p1"
    using v by (simp add: invalid_request_Country)
  then have val: "validateSearchParams ?p1 = Inr ?p2"
    using validate_ok [of ?p1] by simp
  have q: "Query ?p2 = query" and c: "ToUpper (upper_map env) (Country ?p2) = country"
    using v by (auto simp: region_def)
  have e: "scrapeAllSources (upper_map env) (search env) (rank env) (Query ?p2)
             (ToUpper (upper_map env) (Country ?p2)) = []"
    unfolding q c using assms f v scrapeAllSources_all_fail [of up country srch query "rank env"]
    by simp
  have pg: "applyPagination [] (Page ?p2) (Limit ?p2) = Paged [] 0"
    using v by (intro applyPagination_Nil) auto
  have "fst (SearchProducts env params) =
     Ok \<lparr>Query_r = Query ?p2, Products = [], Total = 0, Page_r = Page ?p2,
         Limit_r = Limit ?p2, TotalPages = 0,
         Source_r = sourceInfo (ToUpper (upper_map env) (Country ?p2)),
         Filters_r = Filters ?p2, Sort_r = Sort ?p2, Duration = elapsed env\<rparr>"
    unfolding SearchProducts_miss [OF val nh] e
    using sc pg by (simp add: processProducts_def applyFilters_Nil applySorting_Nil)
  then show "case fst (SearchProducts env params) of
               Ok resp \<Rightarrow> Products resp = [] \<and> Total resp = 0 | _ \<Rightarrow> False"
    by simp
qed

theorem fan_out_isolates_failures_witness:
  "mset (scrapeAllSources (\<lambda>s. s) (search flaky) (rank flaky) ''tv'' ''IN'') = mset three
   \<and> scrapeAllSources (\<lambda>s. s) (search dead) (rank dead) ''tv'' ''IN'' = []
   \<and> (case fst (SearchProducts dead (request ''tv'' ''IN'' 1 10)) of
        Ok resp \<Rightarrow> Products resp = [] \<and> Total resp = 0 | _ \<Rightarrow> False)"
proof -
  have l: "launched (\<lambda>s. s) ''IN'' = [Amazon, Ebay, Flipkart]"
    by (simp add: launched_def string_eval)
  have c1: "\<forall>r \<in> set (launched (\<lambda>s. s) ''IN''). error_without_listings (search flaky r ''tv'' ''IN'')"
    unfolding l by (simp add: flaky_def quiet_def error_without_listings_def)
  have a: "mset (scrapeAllSources (\<lambda>s. s) (search flaky) (rank flaky) ''tv'' ''IN'') = mset three"
    using fan_out_isolates_failures
      [where up = "\<lambda>s. s" and country = "''IN''" and srch = "search flaky" and query = "''tv''"
         and ord = "rank flaky", OF c1]
    unfolding l by (simp add: flaky_def quiet_def listings_def)
  have c2: "\<forall>r \<in> set (launched (\<lambda>s. s) ''IN''). error_without_listings (search dead r ''tv'' ''IN'')"
    unfolding l by (simp add: dead_def quiet_def error_without_listings_def)
  have f2: "\<forall>r \<in> set (launched (\<lambda>s. s) ''IN''). fails (search dead r ''tv'' ''IN'')"
    unfolding l by (simp add: dead_def quiet_def fails_def)
  have h: "upper_map dead = (\<lambda>s. s) \<and> search dead = search dead \<and> Query (request ''tv'' ''IN'' 1 10) = ''tv''
           \<and> region (\<lambda>s. s) (request ''tv'' ''IN'' 1 10) = ''IN''
           \<and> \<not> invalid_request (request ''tv'' ''IN'' 1 10) \<and> Page (request ''tv'' ''IN'' 1 10) < 2 ^ 56
           \<and> sort_Slice_contract (sort_Slice dead) \<and> (\<forall>k. \<not> is_Hit (cache_get dead k))"
    by (simp add: dead_def quiet_def request_def region_def invalid_request_def string_eval
        stable_sort_contract)
  from fan_out_isolates_failures
      [where up = "\<lambda>s. s" and country = "''IN''" and srch = "search dead" and query = "''tv''"
         and ord = "rank dead", OF c2] f2
  have b: "scrapeAllSources (\<lambda>s. s) (search dead) (rank dead) ''tv'' ''IN'' = []"
    and "\<forall>(env :: Env) params.
            upper_map env = (\<lambda>s. s) \<and> search env = search dead \<and> Query params = ''tv''
            \<and> region (\<lambda>s. s) params = ''IN''
            \<and> \<not> invalid_request params \<and> Page params < 2 ^ 56
            \<and> sort_Slice_contract (sort_Slice env) \<and> (\<forall>k. \<not> is_Hit (cache_get env k)) \<longrightarrow>
            (case fst (SearchProducts env params) of
               Ok resp \<Rightarrow> Products resp = [] \<and> Total resp = 0
             | _ \<Rightarrow> False)"
    by blast+
  with h have c: "case fst (SearchProducts dead (request ''tv'' ''IN'' 1 10)) of
        Ok resp \<Rightarrow> Products resp = [] \<and> Total resp = 0 | _ \<Rightarrow> False"
    by blast
  from a b c show ?thesis by blast
qed

section \<open>The cache key\<close>

















end
